theory Spec2Isabelle
  imports Main
begin

section \<open>The payment gateway server\<close>

text \<open>
  The server is an Express application: every route is an asynchronous handler that reads
  the request, calls the payment processor (the Stripe SDK) and the realtime database
  (Firebase) in a fixed order, and answers with a status code and a body. The handlers are
  modelled as functions from the request and the world to the response and the new world.
  The world holds the database and the log of every external call that was attempted; the
  answers of the external services are parameters of the model. A service that throws makes
  the handler answer 500 with the message, as the \<^verbatim>\<open>catch\<close> block of each route does.
  The lines written with \<^verbatim>\<open>console.error\<close> are not part of the model.

  The development follows the latest revision of the server (the one with the directory
  check in the onboarding route and with the account-status route). The onboarding route of
  the earlier revision kept in \<^verbatim>\<open>server.js\<close> is modelled next to it.
\<close>

subsection \<open>JavaScript values\<close>

text \<open>
  The fields of a parsed JSON body that the handlers look at are taken to be primitive
  values (no arrays, no objects); a field that is absent from the body reads as
  \<open>undefined\<close>. Numbers are the integers (amounts are minor currency units, token counts
  are whole numbers).
\<close>

datatype jsval = JUndefined | JNull | JBool bool | JNum int | JStr string

text \<open>What \<^verbatim>\<open>if (v)\<close>, \<^verbatim>\<open>!v\<close> and \<^verbatim>\<open>v || d\<close> test.\<close>

fun truthy :: "jsval \<Rightarrow> bool" where
  "truthy JUndefined = False"
| "truthy JNull = False"
| "truthy (JBool b) = b"
| "truthy (JNum n) = (n \<noteq> 0)"
| "truthy (JStr s) = (s \<noteq> [])"

definition js_or :: "jsval \<Rightarrow> jsval \<Rightarrow> jsval" where
  "js_or a b = (if truthy a then a else b)"

text \<open>
  Decimal digits of a natural number, for values spliced into template strings (JavaScript
  prints an integer below \<open>10\<^sup>2\<^sup>1\<close> this way).
\<close>

fun digits :: "nat \<Rightarrow> string" where
  "digits n =
     (if n < 10 then [char_of (48 + n)]
      else digits (n div 10) @ [char_of (48 + n mod 10)])"

declare digits.simps [simp del]

text \<open>The string a template literal \<^verbatim>\<open>`${v}`\<close> splices in for a primitive value.\<close>

fun toString :: "jsval \<Rightarrow> string" where
  "toString JUndefined = ''undefined''"
| "toString JNull = ''null''"
| "toString (JBool b) = (if b then ''true'' else ''false'')"
| "toString (JNum n) = (if n < 0 then CHR ''-'' # digits (nat (- n)) else digits (nat n))"
| "toString (JStr s) = s"

text \<open>
  \<^verbatim>\<open>String.prototype.trim\<close>, on the ASCII white space (space, tab, line feed, vertical tab,
  form feed, carriage return).
\<close>

definition is_space :: "char \<Rightarrow> bool" where
  "is_space c = (c \<in> set [CHR 0x20, CHR 0x09, CHR 0x0A, CHR 0x0B, CHR 0x0C, CHR 0x0D])"

definition trim :: "string \<Rightarrow> string" where
  "trim s = rev (dropWhile is_space (rev (dropWhile is_space s)))"

text \<open>A request body: the value of each field, \<open>undefined\<close> for a field that is not there.\<close>

type_synonym body = "string \<Rightarrow> jsval"

subsection \<open>The external services\<close>

text \<open>The argument of \<^verbatim>\<open>stripe.paymentIntents.create\<close>.\<close>

record payment_intent_data =
  pi_amount :: jsval
  pi_currency :: jsval
  pi_customer :: jsval
  pi_payment_method :: jsval
  pi_confirm :: bool
  pi_automatic_enabled :: bool
  pi_allow_redirects :: string
  pi_transfer_destination :: "jsval option"

text \<open>
  An external call, as it is attempted. \<open>DbOnce p\<close> is \<^verbatim>\<open>db.ref(p).once("value")\<close>,
  \<open>DbUpdate p k v\<close> is \<^verbatim>\<open>db.ref(p).update({k: v})\<close>; the others are the methods of the
  processor's client with the arguments that vary from request to request (an account is
  always created with the same literal argument, and so on).
\<close>

datatype call =
    DbOnce string
  | DbUpdate string string jsval
  | PaymentIntentsCreate payment_intent_data
  | CustomersCreate jsval string
  | PaymentMethodsList jsval string
  | SetupIntentsCreate jsval
  | AccountsCreate
  | AccountLinksCreate jsval string string
  | AccountsRetrieve jsval

text \<open>What the handlers read of the processor's objects.\<close>

record payment_intent =
  client_secret :: jsval
  pi_status :: string

record 'o account =
  account_id :: string
  account_email :: jsval
  business_type :: jsval
  capabilities :: 'o
  charges_enabled :: bool
  payouts_enabled :: bool
  requirements :: 'o

text \<open>
  The environment of the server. Each service answers a call with a result or with the
  message of the error it throws (\<open>Inl\<close>); the answer may depend on every call attempted
  before. \<open>BASE_URL\<close> is \<^verbatim>\<open>process.env.BASE_URL\<close>.
\<close>

record 'o services =
  BASE_URL :: jsval
  db_once_error :: "call list \<Rightarrow> string \<Rightarrow> string option"
  db_update_error :: "call list \<Rightarrow> string \<Rightarrow> string \<Rightarrow> jsval \<Rightarrow> string option"
  paymentIntents_create :: "call list \<Rightarrow> payment_intent_data \<Rightarrow> string + payment_intent"
  customers_create :: "call list \<Rightarrow> jsval \<Rightarrow> string \<Rightarrow> string + string"
  paymentMethods_list :: "call list \<Rightarrow> jsval \<Rightarrow> string \<Rightarrow> string + 'o"
  setupIntents_create :: "call list \<Rightarrow> jsval \<Rightarrow> string + jsval"
  accounts_create :: "call list \<Rightarrow> string + 'o account"
  accountLinks_create :: "call list \<Rightarrow> jsval \<Rightarrow> string \<Rightarrow> string \<Rightarrow> string + string"
  accounts_retrieve :: "call list \<Rightarrow> jsval \<Rightarrow> string + 'o account"

text \<open>
  The world: the database as a map from a path to the value stored there, and the calls
  attempted so far, oldest first. The store is a key-value store: a path is a key, and
  company ids are taken not to contain the path separator. An update that fails changes
  nothing.
\<close>

record world =
  db :: "string \<rightharpoonup> jsval"
  trace :: "call list"

definition logged :: "call \<Rightarrow> world \<Rightarrow> world" where
  "logged c w = w\<lparr>trace := trace w @ [c]\<rparr>"

text \<open>\<^verbatim>\<open>snapshot.val()\<close>: the stored value, \<open>null\<close> where nothing is stored.\<close>

definition snapshot_val :: "world \<Rightarrow> string \<Rightarrow> jsval" where
  "snapshot_val w p = (case db w p of None \<Rightarrow> JNull | Some v \<Rightarrow> v)"

definition db_once :: "'o services \<Rightarrow> string \<Rightarrow> world \<Rightarrow> (string + jsval) \<times> world" where
  "db_once S p w =
     (case db_once_error S (trace w) p of
        Some e \<Rightarrow> (Inl e, logged (DbOnce p) w)
      | None \<Rightarrow> (Inr (snapshot_val w p), logged (DbOnce p) w))"

definition db_update ::
  "'o services \<Rightarrow> string \<Rightarrow> string \<Rightarrow> jsval \<Rightarrow> world \<Rightarrow> (string + unit) \<times> world" where
  "db_update S p k v w =
     (case db_update_error S (trace w) p k v of
        Some e \<Rightarrow> (Inl e, logged (DbUpdate p k v) w)
      | None \<Rightarrow> (Inr (), logged (DbUpdate p k v) (w\<lparr>db := (db w)(p @ ''/'' @ k \<mapsto> v)\<rparr>)))"

subsection \<open>Responses\<close>

datatype 'o resp_body =
    ErrorJson string
  | PaymentJson jsval string "jsval option"
  | CustomerJson string
  | PaymentMethodsJson 'o
  | SetupJson jsval
  | UrlJson string
  | StatusJson string jsval jsval 'o bool bool 'o
  | Html string
  | Text string

record 'o response =
  status :: nat
  body :: "'o resp_body"

definition json :: "nat \<Rightarrow> 'o resp_body \<Rightarrow> 'o response" where
  "json code b = \<lparr>status = code, body = b\<rparr>"

text \<open>The \<^verbatim>\<open>catch\<close> block of the JSON routes.\<close>

definition server_error :: "string \<Rightarrow> 'o response" where
  "server_error e = json 500 (ErrorJson e)"

text \<open>The calls to the processor's client: the call is logged, the service answers.\<close>

definition stripe_paymentIntents_create ::
  "'o services \<Rightarrow> payment_intent_data \<Rightarrow> world \<Rightarrow> (string + payment_intent) \<times> world" where
  "stripe_paymentIntents_create S d w =
     (paymentIntents_create S (trace w) d, logged (PaymentIntentsCreate d) w)"

definition stripe_customers_create ::
  "'o services \<Rightarrow> jsval \<Rightarrow> string \<Rightarrow> world \<Rightarrow> (string + string) \<times> world" where
  "stripe_customers_create S email name w =
     (customers_create S (trace w) email name, logged (CustomersCreate email name) w)"

definition stripe_paymentMethods_list ::
  "'o services \<Rightarrow> jsval \<Rightarrow> string \<Rightarrow> world \<Rightarrow> (string + 'o) \<times> world" where
  "stripe_paymentMethods_list S customer type w =
     (paymentMethods_list S (trace w) customer type, logged (PaymentMethodsList customer type) w)"

definition stripe_setupIntents_create ::
  "'o services \<Rightarrow> jsval \<Rightarrow> world \<Rightarrow> (string + jsval) \<times> world" where
  "stripe_setupIntents_create S customer w =
     (setupIntents_create S (trace w) customer, logged (SetupIntentsCreate customer) w)"

definition stripe_accounts_create ::
  "'o services \<Rightarrow> world \<Rightarrow> (string + 'o account) \<times> world" where
  "stripe_accounts_create S w = (accounts_create S (trace w), logged AccountsCreate w)"

definition stripe_accountLinks_create ::
  "'o services \<Rightarrow> jsval \<Rightarrow> string \<Rightarrow> string \<Rightarrow> world \<Rightarrow> (string + string) \<times> world" where
  "stripe_accountLinks_create S acct refresh return w =
     (accountLinks_create S (trace w) acct refresh return,
      logged (AccountLinksCreate acct refresh return) w)"

definition stripe_accounts_retrieve ::
  "'o services \<Rightarrow> jsval \<Rightarrow> world \<Rightarrow> (string + 'o account) \<times> world" where
  "stripe_accounts_retrieve S acct w =
     (accounts_retrieve S (trace w) acct, logged (AccountsRetrieve acct) w)"

subsection \<open>The routes\<close>

text \<open>The two database paths of a company, as the template strings build them.\<close>

definition stripeAccountId_path :: "jsval \<Rightarrow> string" where
  "stripeAccountId_path companyUUID =
     ''users/companies/'' @ toString companyUUID @ ''/companySettings/stripeAccountId''"

definition companySettings_path :: "jsval \<Rightarrow> string" where
  "companySettings_path companyUUID =
     ''users/companies/'' @ toString companyUUID @ ''/companySettings''"

text \<open>\<^verbatim>\<open>GET /healthz\<close>\<close>

definition healthz :: "world \<Rightarrow> 'o response \<times> world" where
  "healthz w = (\<lparr>status = 200, body = Text ''OK''\<rparr>, w)"

text \<open>\<^verbatim>\<open>POST /create-payment-intent\<close>\<close>

definition create_payment_intent :: "'o services \<Rightarrow> body \<Rightarrow> world \<Rightarrow> 'o response \<times> world" where
  "create_payment_intent S b w =
     (let amount = b ''amount''; currency = b ''currency''; customerId = b ''customerId'';
          paymentMethodId = b ''paymentMethodId''; tokenAmount = b ''tokenAmount'';
          companyUUID = b ''companyUUID''
      in
        if \<not> truthy amount \<or> \<not> truthy currency \<or> \<not> truthy customerId \<or> \<not> truthy paymentMethodId
        then (json 400 (ErrorJson ''Missing parameters''), w)
        else
          (case (if truthy companyUUID then db_once S (stripeAccountId_path companyUUID) w
                 else (Inr JNull, w)) of
             (Inl e, w1) \<Rightarrow> (server_error e, w1)
           | (Inr stripeAccountId, w1) \<Rightarrow>
               (let paymentIntentData =
                      \<lparr>pi_amount = amount, pi_currency = currency, pi_customer = customerId,
                       pi_payment_method = paymentMethodId, pi_confirm = True,
                       pi_automatic_enabled = True, pi_allow_redirects = ''never'',
                       pi_transfer_destination =
                         (if truthy stripeAccountId then Some stripeAccountId else None)\<rparr>
                in
                  (case stripe_paymentIntents_create S paymentIntentData w1 of
                     (Inl e, w2) \<Rightarrow> (server_error e, w2)
                   | (Inr paymentIntent, w2) \<Rightarrow>
                       (if pi_status paymentIntent = ''succeeded''
                        then (json 200 (PaymentJson (client_secret paymentIntent)
                                (pi_status paymentIntent) (Some (js_or tokenAmount (JNum 0)))), w2)
                        else (json 200 (PaymentJson (client_secret paymentIntent)
                                (pi_status paymentIntent) None), w2))))))"

text \<open>\<^verbatim>\<open>POST /create-stripe-customer\<close>\<close>

definition create_stripe_customer :: "'o services \<Rightarrow> body \<Rightarrow> world \<Rightarrow> 'o response \<times> world" where
  "create_stripe_customer S b w =
     (let email = b ''email''; firstName = b ''firstName''; lastName = b ''lastName''
      in
        if \<not> truthy email then (json 400 (ErrorJson ''Missing email''), w)
        else
          (case stripe_customers_create S email
                  (trim (toString (js_or firstName (JStr [])) @ '' '' @
                         toString (js_or lastName (JStr [])))) w of
             (Inl e, w1) \<Rightarrow> (server_error e, w1)
           | (Inr customer_id, w1) \<Rightarrow> (json 200 (CustomerJson customer_id), w1)))"

text \<open>\<^verbatim>\<open>GET /customer/:id/payment-methods\<close>\<close>

definition customer_payment_methods ::
  "'o services \<Rightarrow> string \<Rightarrow> world \<Rightarrow> 'o response \<times> world" where
  "customer_payment_methods S id' w =
     (if \<not> truthy (JStr id') then (json 400 (ErrorJson ''Missing customer ID''), w)
      else
        (case stripe_paymentMethods_list S (JStr id') ''card'' w of
           (Inl e, w1) \<Rightarrow> (server_error e, w1)
         | (Inr data, w1) \<Rightarrow> (json 200 (PaymentMethodsJson data), w1)))"

text \<open>\<^verbatim>\<open>POST /create-setup-intent\<close>\<close>

definition create_setup_intent :: "'o services \<Rightarrow> body \<Rightarrow> world \<Rightarrow> 'o response \<times> world" where
  "create_setup_intent S b w =
     (let customerId = b ''customerId''
      in
        if \<not> truthy customerId then (json 400 (ErrorJson ''Missing customer ID''), w)
        else
          (case stripe_setupIntents_create S customerId w of
             (Inl e, w1) \<Rightarrow> (server_error e, w1)
           | (Inr secret, w1) \<Rightarrow> (json 200 (SetupJson secret), w1)))"

text \<open>
  \<^verbatim>\<open>POST /stripe/connect\<close>. The block under \<^verbatim>\<open>if (!stripeAccountId)\<close> creates the
  account and saves its id under the company's settings; it yields the id.
\<close>

definition create_and_save_account ::
  "'o services \<Rightarrow> jsval \<Rightarrow> world \<Rightarrow> (string + jsval) \<times> world" where
  "create_and_save_account S companyUUID w =
     (case stripe_accounts_create S w of
        (Inl e, w1) \<Rightarrow> (Inl e, w1)
      | (Inr account', w1) \<Rightarrow>
          (let stripeAccountId = JStr (account_id account')
           in
             (case db_update S (companySettings_path companyUUID) ''stripeAccountId''
                     stripeAccountId w1 of
                (Inl e, w2) \<Rightarrow> (Inl e, w2)
              | (Inr _, w2) \<Rightarrow> (Inr stripeAccountId, w2))))"

text \<open>
  The last step of the route: the onboarding link is requested for the account id, with the
  two addresses the company comes back to, and the url of the link is the answer.
\<close>

definition refresh_url :: "'o services \<Rightarrow> jsval \<Rightarrow> string" where
  "refresh_url S companyUUID =
     toString (BASE_URL S) @ ''/stripe/connect/refresh?companyUUID='' @ toString companyUUID"

definition return_url :: "'o services \<Rightarrow> jsval \<Rightarrow> string" where
  "return_url S companyUUID =
     toString (BASE_URL S) @ ''/stripe/connect/success?companyUUID='' @ toString companyUUID"

definition onboarding_link ::
  "'o services \<Rightarrow> jsval \<Rightarrow> jsval \<Rightarrow> world \<Rightarrow> 'o response \<times> world" where
  "onboarding_link S companyUUID stripeAccountId w =
     (case stripe_accountLinks_create S stripeAccountId (refresh_url S companyUUID)
             (return_url S companyUUID) w of
        (Inl e, w1) \<Rightarrow> (server_error e, w1)
      | (Inr url, w1) \<Rightarrow> (json 200 (UrlJson url), w1))"

definition stripe_connect :: "'o services \<Rightarrow> body \<Rightarrow> world \<Rightarrow> 'o response \<times> world" where
  "stripe_connect S b w =
     (let companyUUID = b ''companyUUID''
      in
        if \<not> truthy companyUUID then (json 400 (ErrorJson ''Missing company UUID''), w)
        else
          (case db_once S (stripeAccountId_path companyUUID) w of
             (Inl e, w1) \<Rightarrow> (server_error e, w1)
           | (Inr stripeAccountId, w1) \<Rightarrow>
               (case (if \<not> truthy stripeAccountId then create_and_save_account S companyUUID w1
                      else (Inr stripeAccountId, w1)) of
                  (Inl e, w2) \<Rightarrow> (server_error e, w2)
                | (Inr stripeAccountId, w2) \<Rightarrow>
                    onboarding_link S companyUUID stripeAccountId w2)))"

text \<open>
  The same route in the earlier revision (\<^verbatim>\<open>server.js\<close>): no look-up, the account is
  created on every request.
\<close>

definition stripe_connect_server_js ::
  "'o services \<Rightarrow> body \<Rightarrow> world \<Rightarrow> 'o response \<times> world" where
  "stripe_connect_server_js S b w =
     (let companyUUID = b ''companyUUID''
      in
        if \<not> truthy companyUUID then (json 400 (ErrorJson ''Missing company UUID''), w)
        else
          (case create_and_save_account S companyUUID w of
             (Inl e, w1) \<Rightarrow> (server_error e, w1)
           | (Inr stripeAccountId, w1) \<Rightarrow> onboarding_link S companyUUID stripeAccountId w1))"

text \<open>
  \<^verbatim>\<open>GET /stripe/connect/success\<close> and \<^verbatim>\<open>GET /stripe/connect/refresh\<close>. The pages are
  sent as UTF-8; the check mark and the warning sign are written as their bytes.
\<close>

definition connect_success :: "jsval \<Rightarrow> world \<Rightarrow> 'o response \<times> world" where
  "connect_success companyUUID w =
     (\<lparr>status = 200,
       body = Html (''<h1>'' @ [CHR 0xE2, CHR 0x9C, CHR 0x85] @
                    '' Stripe Connect onboarding completed for '' @ toString companyUUID @
                    ''</h1>'')\<rparr>, w)"

definition connect_refresh :: "world \<Rightarrow> 'o response \<times> world" where
  "connect_refresh w =
     (\<lparr>status = 200,
       body = Html (''<h1>'' @ [CHR 0xE2, CHR 0x9A, CHR 0xA0, CHR 0xEF, CHR 0xB8, CHR 0x8F] @
                    '' Onboarding was interrupted. Please try again.</h1>'')\<rparr>, w)"

text \<open>\<^verbatim>\<open>GET /stripe/account-status/:companyUUID\<close>\<close>

definition account_status :: "'o services \<Rightarrow> string \<Rightarrow> world \<Rightarrow> 'o response \<times> world" where
  "account_status S companyUUID w =
     (if \<not> truthy (JStr companyUUID) then (json 400 (ErrorJson ''Missing company UUID''), w)
      else
        (case db_once S (stripeAccountId_path (JStr companyUUID)) w of
           (Inl e, w1) \<Rightarrow> (server_error e, w1)
         | (Inr stripeAccountId, w1) \<Rightarrow>
             if \<not> truthy stripeAccountId
             then (json 404 (ErrorJson ''No Stripe account linked''), w1)
             else
               (case stripe_accounts_retrieve S stripeAccountId w1 of
                  (Inl e, w2) \<Rightarrow> (server_error e, w2)
                | (Inr account', w2) \<Rightarrow>
                    (json 200 (StatusJson (account_id account')
                       (js_or (account_email account') JNull)
                       (js_or (business_type account') JNull)
                       (capabilities account') (charges_enabled account')
                       (payouts_enabled account') (requirements account')), w2))))"

subsection \<open>Runs of the server\<close>

datatype request =
    Healthz
  | CreatePaymentIntent body
  | CreateStripeCustomer body
  | CustomerPaymentMethods string
  | CreateSetupIntent body
  | StripeConnect body
  | ConnectSuccess jsval
  | ConnectRefresh
  | AccountStatus string

fun handle :: "'o services \<Rightarrow> request \<Rightarrow> world \<Rightarrow> 'o response \<times> world" where
  "handle S Healthz w = healthz w"
| "handle S (CreatePaymentIntent b) w = create_payment_intent S b w"
| "handle S (CreateStripeCustomer b) w = create_stripe_customer S b w"
| "handle S (CustomerPaymentMethods i) w = customer_payment_methods S i w"
| "handle S (CreateSetupIntent b) w = create_setup_intent S b w"
| "handle S (StripeConnect b) w = stripe_connect S b w"
| "handle S (ConnectSuccess c) w = connect_success c w"
| "handle S ConnectRefresh w = connect_refresh w"
| "handle S (AccountStatus c) w = account_status S c w"

text \<open>Requests served one after the other: the world after the last one.\<close>

fun run :: "'o services \<Rightarrow> request list \<Rightarrow> world \<Rightarrow> world" where
  "run S [] w = w"
| "run S (r # rs) w = run S rs (snd (handle S r w))"

text \<open>The calls a handler attempted: what it appended to the log.\<close>

definition new_calls :: "world \<Rightarrow> world \<Rightarrow> call list" where
  "new_calls w w' = drop (length (trace w)) (trace w')"

subsection \<open>Example environments\<close>

text \<open>
  A processor and a store that always answer. The processor numbers the accounts it creates
  by the calls it has seen, so two creations give two ids.
\<close>

definition stub_services :: "unit services" where
  "stub_services =
     \<lparr>BASE_URL = JStr ''https://api.example.test'',
      db_once_error = (\<lambda>h p. None),
      db_update_error = (\<lambda>h p k v. None),
      paymentIntents_create =
        (\<lambda>h d. Inr \<lparr>client_secret = JStr ''pi_1_secret'', pi_status = ''succeeded''\<rparr>),
      customers_create = (\<lambda>h e n. Inr ''cus_1''),
      paymentMethods_list = (\<lambda>h c t. Inr ()),
      setupIntents_create = (\<lambda>h c. Inr (JStr ''seti_1_secret'')),
      accounts_create =
        (\<lambda>h. Inr \<lparr>account_id = ''acct_'' @ digits (length h), account_email = JNull,
           business_type = JNull, capabilities = (), charges_enabled = False,
           payouts_enabled = False, requirements = ()\<rparr>),
      accountLinks_create =
        (\<lambda>h a r u. Inr (''https://connect.example.test/setup/'' @ toString a)),
      accounts_retrieve =
        (\<lambda>h a. Inr \<lparr>account_id = toString a, account_email = JNull,
           business_type = JStr ''company'', capabilities = (), charges_enabled = True,
           payouts_enabled = False, requirements = ()\<rparr>)\<rparr>"

text \<open>A world with nothing stored, and one where company \<open>co_1\<close> has its account.\<close>

definition empty_world :: world where
  "empty_world = \<lparr>db = Map.empty, trace = []\<rparr>"

definition onboarded_world :: world where
  "onboarded_world =
     \<lparr>db = [''users/companies/co_1/companySettings/stripeAccountId'' \<mapsto> JStr ''acct_7''],
      trace = []\<rparr>"

text \<open>The request bodies of the scenarios.\<close>

definition charge_body :: body where
  "charge_body =
     (\<lambda>_. JUndefined)(''amount'' := JNum 5000, ''currency'' := JStr ''usd'',
       ''customerId'' := JStr ''cus_1'', ''paymentMethodId'' := JStr ''pm_1'')"

definition company_charge_body :: body where
  "company_charge_body = charge_body(''companyUUID'' := JStr ''co_1'')"

definition company_body :: body where
  "company_body = (\<lambda>_. JUndefined)(''companyUUID'' := JStr ''co_1'')"

abbreviation first_onboarding :: "unit response \<times> world" where
  "first_onboarding \<equiv> stripe_connect stub_services company_body empty_world"

abbreviation second_onboarding :: "unit response \<times> world" where
  "second_onboarding \<equiv> stripe_connect stub_services company_body (snd first_onboarding)"

section \<open>Properties\<close>

subsection \<open>Basic facts\<close>

lemma logged_simps [simp]:
  "db (logged c w) = db w" "trace (logged c w) = trace w @ [c]"
  by (simp_all add: logged_def)

lemma snapshot_val_logged [simp]: "snapshot_val (logged c w) p = snapshot_val w p"
  by (simp add: snapshot_val_def)

lemma new_calls_append [simp]: "trace w' = trace w @ cs \<Longrightarrow> new_calls w w' = cs"
  by (simp add: new_calls_def)

lemma new_calls_same [simp]: "new_calls w w = []"
  by (simp add: new_calls_def)

text \<open>The key written under the settings is the path the look-up reads.\<close>

lemma settings_child_path [simp]:
  "companySettings_path c @ ''/stripeAccountId'' = stripeAccountId_path c"
  by (simp add: companySettings_path_def stripeAccountId_path_def)

lemmas stripe_defs =
  stripe_paymentIntents_create_def stripe_customers_create_def stripe_paymentMethods_list_def
  stripe_setupIntents_create_def stripe_accounts_create_def stripe_accountLinks_create_def
  stripe_accounts_retrieve_def

lemmas route_defs =
  healthz_def create_payment_intent_def create_stripe_customer_def customer_payment_methods_def
  create_setup_intent_def stripe_connect_def stripe_connect_server_js_def
  create_and_save_account_def onboarding_link_def connect_success_def connect_refresh_def
  account_status_def db_once_def db_update_def stripe_defs json_def server_error_def js_or_def
  snapshot_val_def Let_def stripeAccountId_path_def companySettings_path_def refresh_url_def
  return_url_def

lemmas example_defs =
  stub_services_def empty_world_def onboarded_world_def charge_body_def company_charge_body_def
  company_body_def

lemma digits_small [simp]:
  "digits 0 = ''0''" "digits (Suc 0) = ''1''" "digits (Suc (Suc (Suc 0))) = ''3''"
  by code_simp+


text \<open>The scenario of the first onboarding of \<open>co_1\<close>, and of the request repeated.\<close>

lemma first_onboarding_example:
  "first_onboarding =
     (json 200 (UrlJson ''https://connect.example.test/setup/acct_1''),
      \<lparr>db = [''users/companies/co_1/companySettings/stripeAccountId'' \<mapsto> JStr ''acct_1''],
       trace =
         [DbOnce ''users/companies/co_1/companySettings/stripeAccountId'', AccountsCreate,
          DbUpdate ''users/companies/co_1/companySettings'' ''stripeAccountId'' (JStr ''acct_1''),
          AccountLinksCreate (JStr ''acct_1'')
            ''https://api.example.test/stripe/connect/refresh?companyUUID=co_1''
            ''https://api.example.test/stripe/connect/success?companyUUID=co_1'']\<rparr>)"
  by (simp add: route_defs example_defs logged_def)

lemma second_onboarding_example:
  "fst second_onboarding = json 200 (UrlJson ''https://connect.example.test/setup/acct_1'') \<and>
   db (snd second_onboarding) = db (snd first_onboarding) \<and>
   new_calls (snd first_onboarding) (snd second_onboarding) =
     [DbOnce ''users/companies/co_1/companySettings/stripeAccountId'',
      AccountLinksCreate (JStr ''acct_1'')
        ''https://api.example.test/stripe/connect/refresh?companyUUID=co_1''
        ''https://api.example.test/stripe/connect/success?companyUUID=co_1'']"
  by (simp add: first_onboarding_example) (simp add: route_defs example_defs logged_def new_calls_def)

subsection \<open>The shape of an onboarding request\<close>



text \<open>
  The route of the earlier revision creates an account and overwrites the stored id on
  every request that answers 200.
\<close>

lemma server_js_connect_always_creates:
  assumes "truthy (b ''companyUUID'')"
    and "stripe_connect_server_js S b w = (r, w')"
    and "status r = 200"
  shows "\<exists>a. accounts_create S (trace w) = Inr a \<and>
           db w' = (db w)(stripeAccountId_path (b ''companyUUID'') \<mapsto> JStr (account_id a)) \<and>
           new_calls w w' =
             [AccountsCreate,
              DbUpdate (companySettings_path (b ''companyUUID'')) ''stripeAccountId''
                (JStr (account_id a)),
              AccountLinksCreate (JStr (account_id a))
                (refresh_url S (b ''companyUUID'')) (return_url S (b ''companyUUID''))]"
  using assms
  by (auto simp: stripe_connect_server_js_def create_and_save_account_def onboarding_link_def
        db_update_def stripe_defs Let_def json_def server_error_def
      split: if_splits option.splits sum.splits prod.splits)

lemma server_js_connect_twice_example:
  "count_list
     (new_calls empty_world
        (snd (stripe_connect_server_js stub_services company_body
           (snd (stripe_connect_server_js stub_services company_body empty_world)))))
     AccountsCreate = 2 \<and>
   db (snd (stripe_connect_server_js stub_services company_body empty_world))
     ''users/companies/co_1/companySettings/stripeAccountId'' = Some (JStr ''acct_0'') \<and>
   db (snd (stripe_connect_server_js stub_services company_body
        (snd (stripe_connect_server_js stub_services company_body empty_world))))
     ''users/companies/co_1/companySettings/stripeAccountId'' = Some (JStr ''acct_3'')"
  by (simp add: route_defs example_defs logged_def new_calls_def)

subsection \<open>Onboarding twice\<close>




subsection \<open>Charges\<close>

text \<open>
  Claim C2. Let a charge request name a company for which the directory holds an account
  id (a value the handler's test \<^verbatim>\<open>if (stripeAccountId)\<close> accepts). Then every call the
  handler makes to create the payment intent carries that id as the transfer destination;
  and when the four required fields are there and the look-up answers, the handler reads
  the directory and makes exactly that call.
\<close>

theorem charge_destination_is_directory_value:
  assumes "truthy (b ''companyUUID'')"
    and "db w (stripeAccountId_path (b ''companyUUID'')) = Some v"
    and "truthy v"
    and "create_payment_intent S b w = (r, w')"
  shows "(\<forall>d. PaymentIntentsCreate d \<in> set (new_calls w w') \<longrightarrow>
            pi_transfer_destination d = Some v) \<and>
         (truthy (b ''amount'') \<and> truthy (b ''currency'') \<and> truthy (b ''customerId'') \<and>
          truthy (b ''paymentMethodId'') \<and>
          db_once_error S (trace w) (stripeAccountId_path (b ''companyUUID'')) = None \<longrightarrow>
            (\<exists>d. new_calls w w' =
                    [DbOnce (stripeAccountId_path (b ''companyUUID'')), PaymentIntentsCreate d] \<and>
                 pi_transfer_destination d = Some v))"
  using assms
  by (auto simp: create_payment_intent_def db_once_def stripe_defs Let_def snapshot_val_def
      split: if_splits option.splits sum.splits prod.splits)

theorem charge_destination_is_directory_value_witness:
  "\<exists>d. new_calls onboarded_world
          (snd (create_payment_intent stub_services company_charge_body onboarded_world)) =
        [DbOnce ''users/companies/co_1/companySettings/stripeAccountId'', PaymentIntentsCreate d] \<and>
       pi_transfer_destination d = Some (JStr ''acct_7'')"
  using charge_destination_is_directory_value
    [of company_charge_body onboarded_world "JStr ''acct_7''" stub_services
      "fst (create_payment_intent stub_services company_charge_body onboarded_world)"
      "snd (create_payment_intent stub_services company_charge_body onboarded_world)"]
  by (simp add: example_defs stripeAccountId_path_def)

text \<open>
  Claim C3. Let the four required fields of a charge request be there. Without a company
  id the handler makes one call, the creation of the payment intent, with no transfer
  destination: the directory is not read. With a company id for which nothing is stored,
  and a look-up that answers, the handler reads the directory and then creates the payment
  intent with no transfer destination; its response is the one the processor's answer
  gives.
\<close>

theorem charge_without_destination:
  assumes "truthy (b ''amount'')" "truthy (b ''currency'')" "truthy (b ''customerId'')"
    "truthy (b ''paymentMethodId'')"
    and "create_payment_intent S b w = (r, w')"
  shows "(\<not> truthy (b ''companyUUID'') \<longrightarrow>
            (\<exists>d. new_calls w w' = [PaymentIntentsCreate d] \<and> pi_transfer_destination d = None)) \<and>
         (truthy (b ''companyUUID'') \<and>
          db w (stripeAccountId_path (b ''companyUUID'')) = None \<and>
          db_once_error S (trace w) (stripeAccountId_path (b ''companyUUID'')) = None \<longrightarrow>
            (\<exists>d. new_calls w w' =
                    [DbOnce (stripeAccountId_path (b ''companyUUID'')), PaymentIntentsCreate d] \<and>
                 pi_transfer_destination d = None \<and>
                 r = (case paymentIntents_create S
                             (trace w @ [DbOnce (stripeAccountId_path (b ''companyUUID''))]) d of
                        Inl e \<Rightarrow> server_error e
                      | Inr p \<Rightarrow>
                          json 200 (PaymentJson (client_secret p) (pi_status p)
                            (if pi_status p = ''succeeded''
                             then Some (js_or (b ''tokenAmount'') (JNum 0)) else None)))))"
  using assms
  by (auto simp: create_payment_intent_def db_once_def stripe_defs Let_def snapshot_val_def
      split: if_splits option.splits sum.splits prod.splits)

theorem charge_without_destination_witness:
  "(\<exists>d. new_calls empty_world (snd (create_payment_intent stub_services charge_body empty_world)) =
        [PaymentIntentsCreate d] \<and> pi_transfer_destination d = None) \<and>
   (\<exists>d. new_calls empty_world
          (snd (create_payment_intent stub_services company_charge_body empty_world)) =
        [DbOnce ''users/companies/co_1/companySettings/stripeAccountId'', PaymentIntentsCreate d] \<and>
       pi_transfer_destination d = None \<and>
       fst (create_payment_intent stub_services company_charge_body empty_world) =
         json 200 (PaymentJson (JStr ''pi_1_secret'') ''succeeded'' (Some (JNum 0))))"
  using
    charge_without_destination [of charge_body stub_services empty_world
      "fst (create_payment_intent stub_services charge_body empty_world)"
      "snd (create_payment_intent stub_services charge_body empty_world)"]
    charge_without_destination [of company_charge_body stub_services empty_world
      "fst (create_payment_intent stub_services company_charge_body empty_world)"
      "snd (create_payment_intent stub_services company_charge_body empty_world)"]
  by (simp add: example_defs stripeAccountId_path_def js_or_def)

text \<open>
  Claim C7, as amended. When a charge request answers 200, the response carries the client
  secret and the status of the payment intent the processor returned. When that status is
  \<open>succeeded\<close> the response also carries \<open>awardedTokens\<close>: the caller's \<open>tokenAmount\<close> when
  that value is truthy, and the number 0 for every other value (absent, null, false, 0 or
  the empty string). With any other status the response has no \<open>awardedTokens\<close>.
\<close>

theorem awarded_tokens_default_zero:
  assumes "create_payment_intent S b w = (r, w')"
    and "status r = 200"
  shows "\<exists>d p. last (new_calls w w') = PaymentIntentsCreate d \<and>
           paymentIntents_create S (butlast (trace w')) d = Inr p \<and>
           body r = PaymentJson (client_secret p) (pi_status p)
             (if pi_status p = ''succeeded''
              then Some (if truthy (b ''tokenAmount'') then b ''tokenAmount'' else JNum 0)
              else None)"
  using assms
  by (auto simp: create_payment_intent_def db_once_def stripe_defs Let_def json_def
        server_error_def js_or_def butlast_append
      split: if_splits option.splits sum.splits prod.splits)

theorem awarded_tokens_default_zero_witness:
  "body (fst (create_payment_intent stub_services (charge_body(''tokenAmount'' := JNum 25))
      empty_world)) =
   PaymentJson (JStr ''pi_1_secret'') ''succeeded'' (Some (JNum 25))"
proof -
  let ?run = "create_payment_intent stub_services (charge_body(''tokenAmount'' := JNum 25))
                empty_world"
  have ok: "status (fst ?run) = 200"
    by (simp add: route_defs example_defs)
  have p: "paymentIntents_create stub_services h d =
             Inr \<lparr>client_secret = JStr ''pi_1_secret'', pi_status = ''succeeded''\<rparr>" for h d
    by (simp add: stub_services_def)
  from awarded_tokens_default_zero [of stub_services "charge_body(''tokenAmount'' := JNum 25)"
      empty_world "fst ?run" "snd ?run", OF _ ok]
  show ?thesis
    by (auto simp: p)
qed

text \<open>
  Claim C7 as it is written has \<open>awardedTokens\<close> equal to every value the caller supplies.
  A request with \<open>tokenAmount: false\<close> and a charge that succeeded is answered with
  \<open>awardedTokens: 0\<close>.
\<close>

theorem awarded_tokens_false_becomes_zero:
  "(charge_body(''tokenAmount'' := JBool False)) ''tokenAmount'' = JBool False \<and>
   fst (create_payment_intent stub_services (charge_body(''tokenAmount'' := JBool False))
      empty_world) =
   \<lparr>status = 200,
    body = PaymentJson (JStr ''pi_1_secret'') ''succeeded'' (Some (JNum 0))\<rparr>"
  by (simp add: route_defs example_defs)



subsection \<open>Missing fields\<close>

text \<open>
  Claim C5. On each of the four routes that change something, a request body that lacks a
  required field is answered with status 400, and the world is left as it was: the
  database is neither read nor written and the processor is not called, since every such
  call is logged.
\<close>

theorem missing_field_rejected_without_calls:
  "(b ''amount'' = JUndefined \<or> b ''currency'' = JUndefined \<or> b ''customerId'' = JUndefined \<or>
      b ''paymentMethodId'' = JUndefined \<longrightarrow>
      create_payment_intent S b w = (json 400 (ErrorJson ''Missing parameters''), w)) \<and>
   (b ''email'' = JUndefined \<longrightarrow>
      create_stripe_customer S b w = (json 400 (ErrorJson ''Missing email''), w)) \<and>
   (b ''customerId'' = JUndefined \<longrightarrow>
      create_setup_intent S b w = (json 400 (ErrorJson ''Missing customer ID''), w)) \<and>
   (b ''companyUUID'' = JUndefined \<longrightarrow>
      stripe_connect S b w = (json 400 (ErrorJson ''Missing company UUID''), w))"
  by (auto simp: create_payment_intent_def create_stripe_customer_def create_setup_intent_def
        stripe_connect_def)

theorem missing_field_rejected_without_calls_witness:
  "create_payment_intent stub_services (\<lambda>_. JUndefined) empty_world =
     (json 400 (ErrorJson ''Missing parameters''), empty_world) \<and>
   create_stripe_customer stub_services (\<lambda>_. JUndefined) empty_world =
     (json 400 (ErrorJson ''Missing email''), empty_world) \<and>
   create_setup_intent stub_services (\<lambda>_. JUndefined) empty_world =
     (json 400 (ErrorJson ''Missing customer ID''), empty_world) \<and>
   stripe_connect stub_services (\<lambda>_. JUndefined) empty_world =
     (json 400 (ErrorJson ''Missing company UUID''), empty_world)"
  using missing_field_rejected_without_calls [of "\<lambda>_. JUndefined" stub_services empty_world]
  by simp

subsection \<open>Account status\<close>



subsection \<open>Order of the onboarding calls\<close>

text \<open>
  Claim C8. Let an onboarding request find no account id for its company and let the
  processor create an account. Then the handler's calls are, in this order: the look-up,
  the creation, the write of the new id under the company's settings and, only when that
  write succeeded, the request for the onboarding link. The write precedes the link
  request, and the database holds the new id when the link is requested.
\<close>

theorem directory_write_precedes_link:
  assumes "truthy (b ''companyUUID'')"
    and "db_once_error S (trace w) (stripeAccountId_path (b ''companyUUID'')) = None"
    and "\<not> truthy (snapshot_val w (stripeAccountId_path (b ''companyUUID'')))"
    and "accounts_create S (trace w @ [DbOnce (stripeAccountId_path (b ''companyUUID''))]) = Inr a"
    and "stripe_connect S b w = (r, w')"
  shows "(case db_update_error S
                 (trace w @ [DbOnce (stripeAccountId_path (b ''companyUUID'')), AccountsCreate])
                 (companySettings_path (b ''companyUUID'')) ''stripeAccountId''
                 (JStr (account_id a)) of
            Some e \<Rightarrow>
              new_calls w w' =
                [DbOnce (stripeAccountId_path (b ''companyUUID'')), AccountsCreate,
                 DbUpdate (companySettings_path (b ''companyUUID'')) ''stripeAccountId''
                   (JStr (account_id a))] \<and>
              db w' = db w
          | None \<Rightarrow>
              new_calls w w' =
                [DbOnce (stripeAccountId_path (b ''companyUUID'')), AccountsCreate,
                 DbUpdate (companySettings_path (b ''companyUUID'')) ''stripeAccountId''
                   (JStr (account_id a)),
                 AccountLinksCreate (JStr (account_id a)) (refresh_url S (b ''companyUUID''))
                   (return_url S (b ''companyUUID''))] \<and>
              db w' =
                (db w)(stripeAccountId_path (b ''companyUUID'') \<mapsto> JStr (account_id a)))"
  using assms
  by (auto simp: stripe_connect_def create_and_save_account_def onboarding_link_def db_once_def
        db_update_def stripe_defs Let_def
      split: if_splits option.splits sum.splits prod.splits)

theorem directory_write_precedes_link_witness:
  "new_calls empty_world (snd first_onboarding) =
     [DbOnce ''users/companies/co_1/companySettings/stripeAccountId'', AccountsCreate,
      DbUpdate ''users/companies/co_1/companySettings'' ''stripeAccountId'' (JStr ''acct_1''),
      AccountLinksCreate (JStr ''acct_1'')
        ''https://api.example.test/stripe/connect/refresh?companyUUID=co_1''
        ''https://api.example.test/stripe/connect/success?companyUUID=co_1''] \<and>
   db (snd first_onboarding) =
     (db empty_world)(''users/companies/co_1/companySettings/stripeAccountId'' \<mapsto>
        JStr ''acct_1'')"
proof -
  let ?a = "\<lparr>account_id = ''acct_1'', account_email = JNull, business_type = JNull,
             capabilities = (), charges_enabled = False, payouts_enabled = False,
             requirements = ()\<rparr>"
  have h1: "truthy (company_body ''companyUUID'')"
    by (simp add: company_body_def)
  have h2: "db_once_error stub_services (trace empty_world)
              (stripeAccountId_path (company_body ''companyUUID'')) = None"
    by (simp add: stub_services_def)
  have h3: "\<not> truthy (snapshot_val empty_world (stripeAccountId_path (company_body ''companyUUID'')))"
    by (simp add: snapshot_val_def empty_world_def)
  have h4: "accounts_create stub_services
              (trace empty_world @ [DbOnce (stripeAccountId_path (company_body ''companyUUID''))]) =
            Inr ?a"
    by (simp add: stub_services_def empty_world_def)
  have p: "stripeAccountId_path (company_body ''companyUUID'') =
             ''users/companies/co_1/companySettings/stripeAccountId''"
    "companySettings_path (company_body ''companyUUID'') = ''users/companies/co_1/companySettings''"
    "refresh_url stub_services (company_body ''companyUUID'') =
       ''https://api.example.test/stripe/connect/refresh?companyUUID=co_1''"
    "return_url stub_services (company_body ''companyUUID'') =
       ''https://api.example.test/stripe/connect/success?companyUUID=co_1''"
    by (simp_all add: stripeAccountId_path_def companySettings_path_def company_body_def
          refresh_url_def return_url_def stub_services_def)
  have u: "db_update_error stub_services h q k v = None" for h q k v
    by (simp add: stub_services_def)
  from directory_write_precedes_link [of company_body stub_services empty_world ?a
      "fst first_onboarding" "snd first_onboarding", OF h1 h2 h3 h4]
  show ?thesis
    by (simp add: p u)
qed

subsection \<open>The terminal pages\<close>

text \<open>
  Claim C9. The success page and the refresh page answer every request with status 200
  and an HTML page, and leave the world as it was: no call is made, the database is not
  written.
\<close>

theorem terminal_pages_leave_world_unchanged:
  "snd (connect_success c w) = w \<and> snd (connect_refresh w) = w \<and>
   status (fst (connect_success c w)) = 200 \<and> status (fst (connect_refresh w)) = 200 \<and>
   (\<exists>h. body (fst (connect_success c w)) = Html h) \<and>
   (\<exists>h. body (fst (connect_refresh w)) = Html h)"
  by (simp add: connect_success_def connect_refresh_def)

subsection \<open>The stored account id is never replaced\<close>




text \<open>
  When the processor's account ids are not empty, the server stores truthy values only: in
  a database that the server alone has written, an entry that is present is an entry whose
  value is truthy.
\<close>

lemma handle_stores_truthy:
  assumes "\<forall>h a. accounts_create S h = Inr a \<longrightarrow> account_id a \<noteq> []"
    and "\<forall>p v. db w p = Some v \<longrightarrow> truthy v"
  shows "\<forall>p v. db (snd (handle S r w)) p = Some v \<longrightarrow> truthy v"
proof (cases r)
  case (StripeConnect b)
  then show ?thesis
    using assms
    by (auto simp: stripe_connect_def create_and_save_account_def onboarding_link_def db_once_def
          db_update_def stripe_defs Let_def
        split: if_splits option.splits sum.splits prod.splits)
qed (use assms in \<open>auto simp: healthz_def create_payment_intent_def create_stripe_customer_def
       customer_payment_methods_def create_setup_intent_def connect_success_def
       connect_refresh_def account_status_def db_once_def stripe_defs Let_def
     split: if_splits option.splits sum.splits prod.splits\<close>)

lemma run_stores_truthy:
  assumes "\<forall>h a. accounts_create S h = Inr a \<longrightarrow> account_id a \<noteq> []"
  shows "\<forall>p v. db w p = Some v \<longrightarrow> truthy v \<Longrightarrow>
         \<forall>p v. db (run S rs w) p = Some v \<longrightarrow> truthy v"
proof (induction rs arbitrary: w)
  case Nil
  then show ?case by simp
next
  case (Cons r rs)
  from assms Cons.prems
  have "\<forall>p v. db (snd (handle S r w)) p = Some v \<longrightarrow> truthy v"
    by (rule handle_stores_truthy)
  then have "\<forall>p v. db (run S rs (snd (handle S r w))) p = Some v \<longrightarrow> truthy v"
    by (rule Cons.IH)
  then show ?case by simp
qed



end
